theory Spec2Isabelle
  imports Main "HOL-Library.Word" "HOL-Library.Signed_Division"
begin

unbundle bit_operations_syntax

section \<open>C integers\<close>

text \<open>
  The driver computes with \<open>int\<close> (32 bit) and \<open>long long\<close> (64 bit). Values are
  modelled as mathematical integers and every operation wraps its result into the
  range of its C type (the kernel is built with \<open>-fno-strict-overflow\<close>, and a
  conversion to a narrower signed type keeps the low bits). \<open>/\<close> on C integers
  truncates towards zero, which is \<open>sdiv\<close>.
\<close>

definition s32 :: "int \<Rightarrow> int" where
  "s32 x = (x + 2 ^ 31) mod 2 ^ 32 - 2 ^ 31"

definition s64 :: "int \<Rightarrow> int" where
  "s64 x = (x + 2 ^ 63) mod 2 ^ 64 - 2 ^ 63"

text \<open>The kernel's \<open>clamp(val, lo, hi)\<close> macro.\<close>

definition clamp :: "int \<Rightarrow> int \<Rightarrow> int \<Rightarrow> int" where
  "clamp val lo hi = (if val \<ge> hi then hi else if val \<le> lo then lo else val)"

section \<open>Constants of the driver and of the kernel headers it uses\<close>

definition EINVAL :: int where "EINVAL = 22"

definition EIO :: int where "EIO = 5"

definition IIO_VAL_FRACTIONAL_LOG2 :: int where "IIO_VAL_FRACTIONAL_LOG2 = 11"

definition APDS9960_REG_ALS_BASE :: nat where "APDS9960_REG_ALS_BASE = 0x94"

datatype apds9960_als_channel_idx = IDX_ALS_CLEAR | IDX_ALS_RED | IDX_ALS_GREEN | IDX_ALS_BLUE

fun idx_value :: "apds9960_als_channel_idx \<Rightarrow> nat" where
  "idx_value IDX_ALS_CLEAR = 0"
| "idx_value IDX_ALS_RED = 1"
| "idx_value IDX_ALS_GREEN = 2"
| "idx_value IDX_ALS_BLUE = 3"

definition APDS9960_REG_ALS_CHANNEL :: "apds9960_als_channel_idx \<Rightarrow> nat" where
  "APDS9960_REG_ALS_CHANNEL colour = APDS9960_REG_ALS_BASE + idx_value colour * 2"

definition APDS9960_REG_ATIME :: nat where "APDS9960_REG_ATIME = 0x81"

definition APDS9960_MAX_INT_TIME_IN_US :: int where "APDS9960_MAX_INT_TIME_IN_US = 1000000"

section \<open>The register map configuration\<close>

record regmap_range =
  range_min :: nat
  range_max :: nat

definition regmap_reg_range :: "nat \<Rightarrow> nat \<Rightarrow> regmap_range" where
  "regmap_reg_range low high = \<lparr>range_min = low, range_max = high\<rparr>"

record regmap_access_table =
  yes_ranges :: "regmap_range list"
  no_ranges :: "regmap_range list"

datatype regcache_type = REGCACHE_NONE | REGCACHE_RBTREE

record regmap_config =
  reg_bits :: nat
  val_bits :: nat
  volatile_table :: "regmap_access_table option"
  precious_table :: "regmap_access_table option"
  rd_table :: "regmap_access_table option"
  wr_table :: "regmap_access_table option"
  reg_defaults :: "(nat \<times> 8 word) list"
  max_register :: nat
  cache_type :: regcache_type

definition apds9960_readable_ranges :: "regmap_range list" where
  "apds9960_readable_ranges =
     [regmap_reg_range APDS9960_REG_ATIME (APDS9960_REG_ALS_BASE + 6)]"

definition apds9960_readable_table :: regmap_access_table where
  "apds9960_readable_table = \<lparr>yes_ranges = apds9960_readable_ranges, no_ranges = []\<rparr>"

definition apds9960_reg_defaults :: "(nat \<times> 8 word) list" where
  "apds9960_reg_defaults = [(APDS9960_REG_ATIME, 0xff)]"

definition apds9960_volatile_ranges :: "regmap_range list" where
  "apds9960_volatile_ranges =
     [regmap_reg_range APDS9960_REG_ALS_BASE (APDS9960_REG_ALS_BASE + 2)]"

definition apds9960_volatile_table :: regmap_access_table where
  "apds9960_volatile_table = \<lparr>yes_ranges = apds9960_volatile_ranges, no_ranges = []\<rparr>"

definition apds9960_precious_ranges :: "regmap_range list" where
  "apds9960_precious_ranges =
     [regmap_reg_range (APDS9960_REG_ALS_BASE + 4) (APDS9960_REG_ALS_BASE + 6)]"

definition apds9960_precious_table :: regmap_access_table where
  "apds9960_precious_table = \<lparr>yes_ranges = apds9960_precious_ranges, no_ranges = []\<rparr>"

definition apds9960_regmap_config :: regmap_config where
  "apds9960_regmap_config =
     \<lparr>reg_bits = 8,
      val_bits = 8,
      volatile_table = Some apds9960_volatile_table,
      precious_table = Some apds9960_precious_table,
      rd_table = Some apds9960_readable_table,
      wr_table = None,
      reg_defaults = apds9960_reg_defaults,
      max_register = APDS9960_REG_ALS_BASE + 6,
      cache_type = REGCACHE_RBTREE\<rparr>"

section \<open>The kernel's regmap, as the driver uses it\<close>

text \<open>
  The regmap core is not part of the driver. It is modelled after its kernel
  implementation for an 8-bit register, 8-bit value map on a bus without a native
  update-bits operation, with \<open>cache_bypass\<close> and \<open>cache_only\<close> off (the driver
  never sets them): the access tables decide which registers are readable, volatile
  and precious; a read of a register that is not volatile is served from the cache
  when the cache holds it; a write updates the cache first and then goes to the bus.

  The chip is a byte store \<open>hw\<close>. Every bus transaction is appended to \<open>bus_log\<close>;
  the \<open>n\<close>-th transaction returns \<open>bus_ret n\<close> (0 on success, a negative errno
  otherwise), and a transaction that fails leaves the chip as it was.
\<close>

datatype bus_op = BusRead nat | BusWrite nat "8 word"

record regmap_t =
  hw :: "nat \<Rightarrow> 8 word"
  cache :: "nat \<Rightarrow> 8 word option"
  bus_ret :: "nat \<Rightarrow> int"
  bus_log :: "bus_op list"

definition regmap_reg_in_ranges :: "nat \<Rightarrow> regmap_range list \<Rightarrow> bool" where
  "regmap_reg_in_ranges reg ranges =
     list_ex (\<lambda>r. range_min r \<le> reg \<and> reg \<le> range_max r) ranges"

definition regmap_check_range_table :: "nat \<Rightarrow> regmap_access_table \<Rightarrow> bool" where
  "regmap_check_range_table reg table =
     (if regmap_reg_in_ranges reg (no_ranges table) then False
      else if yes_ranges table = [] then True
      else regmap_reg_in_ranges reg (yes_ranges table))"

definition regmap_readable :: "regmap_config \<Rightarrow> nat \<Rightarrow> bool" where
  "regmap_readable cfg reg =
     (if reg > max_register cfg then False
      else case rd_table cfg of
             Some t \<Rightarrow> regmap_check_range_table reg t
           | None \<Rightarrow> True)"

definition regmap_writeable :: "regmap_config \<Rightarrow> nat \<Rightarrow> bool" where
  "regmap_writeable cfg reg =
     (if reg > max_register cfg then False
      else case wr_table cfg of
             Some t \<Rightarrow> regmap_check_range_table reg t
           | None \<Rightarrow> True)"

definition regmap_volatile :: "regmap_config \<Rightarrow> nat \<Rightarrow> bool" where
  "regmap_volatile cfg reg =
     (if \<not> regmap_readable cfg reg then False
      else case volatile_table cfg of
             Some t \<Rightarrow> regmap_check_range_table reg t
           | None \<Rightarrow> cache_type cfg = REGCACHE_NONE)"

definition regmap_precious :: "regmap_config \<Rightarrow> nat \<Rightarrow> bool" where
  "regmap_precious cfg reg =
     (if \<not> regmap_readable cfg reg then False
      else case precious_table cfg of
             Some t \<Rightarrow> regmap_check_range_table reg t
           | None \<Rightarrow> False)"

definition regcache_read :: "regmap_config \<Rightarrow> regmap_t \<Rightarrow> nat \<Rightarrow> 8 word option" where
  "regcache_read cfg m reg =
     (if cache_type cfg = REGCACHE_NONE then None
      else if \<not> regmap_volatile cfg reg then cache m reg
      else None)"

definition regcache_write :: "regmap_config \<Rightarrow> regmap_t \<Rightarrow> nat \<Rightarrow> 8 word \<Rightarrow> regmap_t" where
  "regcache_write cfg m reg v =
     (if cache_type cfg = REGCACHE_NONE then m
      else if \<not> regmap_volatile cfg reg then m\<lparr>cache := (cache m)(reg \<mapsto> v)\<rparr>
      else m)"

definition bus_read :: "regmap_t \<Rightarrow> nat \<Rightarrow> int \<times> 8 word \<times> regmap_t" where
  "bus_read m reg =
     (bus_ret m (length (bus_log m)), hw m reg, m\<lparr>bus_log := bus_log m @ [BusRead reg]\<rparr>)"

definition bus_write :: "regmap_t \<Rightarrow> nat \<Rightarrow> 8 word \<Rightarrow> int \<times> regmap_t" where
  "bus_write m reg v =
     (let ret = bus_ret m (length (bus_log m)) in
      (ret, m\<lparr>hw := (if ret = 0 then (hw m)(reg := v) else hw m),
              bus_log := bus_log m @ [BusWrite reg v]\<rparr>))"

text \<open>
  \<open>regmap_read\<close> returns the status and the value; the value is stored through the
  caller's pointer only when the status is 0.
\<close>

definition regmap_read :: "regmap_config \<Rightarrow> regmap_t \<Rightarrow> nat \<Rightarrow> int \<times> 32 word \<times> regmap_t" where
  "regmap_read cfg m reg =
     (case regcache_read cfg m reg of
        Some v \<Rightarrow> (0, ucast v, m)
      | None \<Rightarrow>
          if \<not> regmap_readable cfg reg then (- EIO, 0, m)
          else (case bus_read m reg of
                  (ret, v, m') \<Rightarrow>
                    if ret = 0 then (0, ucast v, regcache_write cfg m' reg v)
                    else (ret, 0, m')))"

definition regmap_write :: "regmap_config \<Rightarrow> regmap_t \<Rightarrow> nat \<Rightarrow> 32 word \<Rightarrow> int \<times> regmap_t" where
  "regmap_write cfg m reg val =
     (if \<not> regmap_writeable cfg reg then (- EIO, m)
      else bus_write (regcache_write cfg m reg (ucast val)) reg (ucast val))"

definition regmap_update_bits ::
  "regmap_config \<Rightarrow> regmap_t \<Rightarrow> nat \<Rightarrow> 32 word \<Rightarrow> 32 word \<Rightarrow> int \<times> regmap_t" where
  "regmap_update_bits cfg m reg msk val =
     (case regmap_read cfg m reg of
        (ret, orig, m') \<Rightarrow>
          if ret \<noteq> 0 then (ret, m')
          else (let tmp = (orig AND NOT msk) OR (val AND msk) in
                if tmp \<noteq> orig then regmap_write cfg m' reg tmp else (0, m')))"

section \<open>Device state\<close>

text \<open>
  \<open>struct apds9960_data\<close> without the client and device back pointers and the
  mutex. The event stream of the IIO device is the list of events pushed so far.
\<close>

record apds9960_data =
  regmap :: regmap_t
  als_int :: int
  als_gain :: int
  als_adc_int_us :: int

record iio_event =
  ev_code :: "64 word"
  timestamp :: int

record iio_dev =
  priv :: apds9960_data
  events :: "iio_event list"

datatype iio_modifier =
  IIO_MOD_LIGHT_CLEAR | IIO_MOD_LIGHT_RED | IIO_MOD_LIGHT_GREEN | IIO_MOD_LIGHT_BLUE
  | IIO_MOD_OTHER nat

datatype iio_chan_info =
  IIO_CHAN_INFO_RAW | IIO_CHAN_INFO_SCALE | IIO_CHAN_INFO_INT_TIME | IIO_CHAN_INFO_OTHER nat

datatype iio_chan_type = IIO_INTENSITY

record iio_chan_spec =
  chan_type :: iio_chan_type
  info_mask_separate :: "iio_chan_info list"
  info_mask_shared_by_type :: "iio_chan_info list"
  channel2 :: iio_modifier
  address :: nat
  modified :: bool
  scan_index :: int

definition apds9960_channel :: "iio_modifier \<Rightarrow> apds9960_als_channel_idx \<Rightarrow> iio_chan_spec" where
  "apds9960_channel m colour =
     \<lparr>chan_type = IIO_INTENSITY,
      info_mask_separate = [IIO_CHAN_INFO_RAW],
      info_mask_shared_by_type = [IIO_CHAN_INFO_SCALE, IIO_CHAN_INFO_INT_TIME],
      channel2 = m,
      address = APDS9960_REG_ALS_CHANNEL colour,
      modified = True,
      scan_index = - 1\<rparr>"

definition apds9960_channels :: "iio_chan_spec list" where
  "apds9960_channels =
     [apds9960_channel IIO_MOD_LIGHT_CLEAR IDX_ALS_CLEAR,
      apds9960_channel IIO_MOD_LIGHT_RED IDX_ALS_RED,
      apds9960_channel IIO_MOD_LIGHT_GREEN IDX_ALS_GREEN,
      apds9960_channel IIO_MOD_LIGHT_BLUE IDX_ALS_BLUE]"

section \<open>The driver's operations\<close>

text \<open>
  The \<open>long long\<close> value of \<open>1000000LL * (256 - val) * data->als_gain / 1000\<close>:
  \<open>256 - val\<close> is computed in \<open>int\<close>, the products and the quotient in
  \<open>long long\<close>.
\<close>

definition adc_int_us_ll :: "int \<Rightarrow> int \<Rightarrow> int" where
  "adc_int_us_ll val gain = s64 (s64 (s64 (1000000 * s32 (256 - val)) * gain) sdiv 1000)"

text \<open>
  \<open>apds9960_write_raw\<close>. The regmap of the device is the one \<open>apds9960_probe\<close>
  creates from \<open>apds9960_regmap_config\<close>. The register index computed by the
  \<open>switch\<close> on the gain is never used; what remains of the \<open>switch\<close> is its
  \<open>default\<close> branch. The \<open>int\<close> \<open>255 - val\<close> is passed as an \<open>unsigned int\<close>,
  which keeps its low 32 bits.
\<close>

definition apds9960_write_raw ::
  "iio_dev \<Rightarrow> iio_chan_spec \<Rightarrow> int \<Rightarrow> int \<Rightarrow> iio_chan_info \<Rightarrow> int \<times> iio_dev" where
  "apds9960_write_raw indio_dev chan val val2 msk =
     (if msk \<noteq> IIO_CHAN_INFO_INT_TIME then (- EINVAL, indio_dev)
      else
        let data = priv indio_dev;
            us0 = s32 (adc_int_us_ll val (als_gain data));
            us1 = (if us0 < 1000 then 1000
                   else if us0 > APDS9960_MAX_INT_TIME_IN_US then APDS9960_MAX_INT_TIME_IN_US
                   else us0);
            us2 = s32 (clamp us1 1000 APDS9960_MAX_INT_TIME_IN_US);
            data1 = data\<lparr>als_adc_int_us := us2\<rparr>
        in if als_gain data1 \<notin> {1, 4, 16, 64} then (- EINVAL, indio_dev\<lparr>priv := data1\<rparr>)
           else (case regmap_update_bits apds9960_regmap_config (regmap data1)
                        APDS9960_REG_ATIME 0xff (word_of_int (255 - val)) of
                   (ret, m') \<Rightarrow> (ret, indio_dev\<lparr>priv := data1\<lparr>regmap := m'\<rparr>\<rparr>)))"

text \<open>
  \<open>apds9960_read_raw\<close>. The channel-info lookup it delegates to is not part of
  the driver: it is a parameter, which gets the device, the channel, the modifier and
  the two output cells, and returns its status, the cells and the device as it
  leaves them. The result is the status, \<open>*val\<close>, \<open>*val2\<close> and the device.
\<close>

type_synonym ext_info_fn =
  "iio_dev \<Rightarrow> iio_chan_spec \<Rightarrow> iio_modifier \<Rightarrow> int \<Rightarrow> int \<Rightarrow> int \<times> int \<times> int \<times> iio_dev"

definition apds9960_read_raw ::
  "ext_info_fn \<Rightarrow> iio_dev \<Rightarrow> iio_chan_spec \<Rightarrow> int \<Rightarrow> int \<Rightarrow> iio_chan_info
     \<Rightarrow> int \<times> int \<times> int \<times> iio_dev" where
  "apds9960_read_raw iio_read_channel_ext_info indio_dev chan val val2 msk =
     (if msk = IIO_CHAN_INFO_SCALE then
        (if channel2 chan \<in> {IIO_MOD_LIGHT_CLEAR, IIO_MOD_LIGHT_RED,
                               IIO_MOD_LIGHT_GREEN, IIO_MOD_LIGHT_BLUE} then
           (case iio_read_channel_ext_info indio_dev chan (channel2 chan) val val2 of
              (ret, v, v2, dev') \<Rightarrow>
                if ret \<noteq> 0 then (ret, v, v2, dev')
                else (IIO_VAL_FRACTIONAL_LOG2, 0, 10000, dev'))
         else (- EINVAL, val, val2, indio_dev))
      else (- EINVAL, val, val2, indio_dev))"

text \<open>
  The interrupt handler. \<open>iio_push_event\<close> appends to the event stream; the
  reading of the IIO clock, \<open>iio_get_time_ns\<close>, is the parameter \<open>now\<close>.
\<close>

datatype irqreturn_t = IRQ_NONE | IRQ_HANDLED | IRQ_WAKE_THREAD

definition iio_push_event :: "iio_dev \<Rightarrow> 64 word \<Rightarrow> int \<Rightarrow> iio_dev" where
  "iio_push_event indio_dev code ts =
     indio_dev\<lparr>events := events indio_dev @ [\<lparr>ev_code = code, timestamp = ts\<rparr>]\<rparr>"

definition apds9960_als_irq_handler :: "int \<Rightarrow> iio_dev \<Rightarrow> int \<Rightarrow> irqreturn_t \<times> iio_dev" where
  "apds9960_als_irq_handler irq indio_dev now =
     (let data = priv indio_dev
      in (IRQ_HANDLED, iio_push_event indio_dev (word_of_int (als_int data)) now))"

datatype iio_event_type = IIO_EV_TYPE_THRESH | IIO_EV_TYPE_MAG | IIO_EV_TYPE_ROC

datatype iio_event_direction = IIO_EV_DIR_EITHER | IIO_EV_DIR_RISING | IIO_EV_DIR_FALLING

definition apds9960_als_read_event_config ::
  "iio_dev \<Rightarrow> iio_chan_spec \<Rightarrow> iio_event_type \<Rightarrow> iio_event_direction \<Rightarrow> int \<times> iio_dev" where
  "apds9960_als_read_event_config indio_dev chan type dir =
     (let data = priv indio_dev
      in case regmap_read apds9960_regmap_config (regmap data)
                (APDS9960_REG_ALS_CHANNEL IDX_ALS_CLEAR) of
           (ret, v, m') \<Rightarrow>
             (ret, indio_dev\<lparr>priv := data\<lparr>regmap := m',
                                als_int := (if ret = 0 then uint v else als_int data)\<rparr>\<rparr>))"

definition apds9960_als_write_event_config ::
  "iio_dev \<Rightarrow> iio_chan_spec \<Rightarrow> iio_event_type \<Rightarrow> iio_event_direction \<Rightarrow> int \<Rightarrow> int \<times> iio_dev" where
  "apds9960_als_write_event_config indio_dev chan type dir state =
     (let data = priv indio_dev
      in case regmap_write apds9960_regmap_config (regmap data)
                (APDS9960_REG_ALS_CHANNEL IDX_ALS_CLEAR) (word_of_int state) of
           (ret, m') \<Rightarrow> (ret, indio_dev\<lparr>priv := data\<lparr>regmap := m'\<rparr>\<rparr>))"

section \<open>Concrete devices\<close>

text \<open>
  A register map as \<open>devm_regmap_init_i2c\<close> creates it: the cache holds the
  register defaults, nothing has been transferred yet. The chip holds the given
  bytes and the bus answers with the given status codes.
\<close>

definition regmap_init :: "regmap_config \<Rightarrow> (nat \<Rightarrow> 8 word) \<Rightarrow> (nat \<Rightarrow> int) \<Rightarrow> regmap_t" where
  "regmap_init cfg chip rets =
     \<lparr>hw = chip, cache = map_of (reg_defaults cfg), bus_ret = rets, bus_log = []\<rparr>"

definition chip_reset :: "nat \<Rightarrow> 8 word" where
  "chip_reset reg = (if reg = APDS9960_REG_ATIME then 0xff else 0)"

definition bus_good :: "nat \<Rightarrow> int" where
  "bus_good n = 0"

definition bus_dead :: "nat \<Rightarrow> int" where
  "bus_dead n = - EIO"

text \<open>A bus whose first transfer fails and whose later transfers succeed.\<close>

definition bus_first_fails :: "nat \<Rightarrow> int" where
  "bus_first_fails n = (if n = 0 then - EIO else 0)"

text \<open>
  A device with the given gain and stored integration time, no event pushed yet,
  attached to a chip whose ATIME register holds 0xff and whose other registers
  hold 0.
\<close>

definition apds9960_dev :: "int \<Rightarrow> int \<Rightarrow> (nat \<Rightarrow> int) \<Rightarrow> iio_dev" where
  "apds9960_dev gain us rets =
     \<lparr>priv = \<lparr>regmap = regmap_init apds9960_regmap_config chip_reset rets,
              als_int = 0, als_gain = gain, als_adc_int_us = us\<rparr>,
      events = []\<rparr>"

text \<open>A channel-info lookup that returns the given status and touches nothing.\<close>

definition ext_info_ret :: "int \<Rightarrow> ext_info_fn" where
  "ext_info_ret r indio_dev chan m val val2 = (r, val, val2, indio_dev)"

section \<open>Facts about bytes and words\<close>

lemma ff_mask: "(0xff :: 32 word) = mask 8"
  by (simp add: mask_eq_exp_minus_1)

lemma ucast_update:
  fixes b :: "8 word" and w :: "32 word"
  shows "(ucast ((ucast b AND NOT 0xff) OR (w AND 0xff) :: 32 word) :: 8 word) = ucast w"
  unfolding ff_mask by (rule bit_word_eqI) (auto simp add: bit_simps)

lemma ucast_update_nf:
  fixes b :: "8 word" and w :: "32 word"
  shows "(ucast ((ucast b AND - 256) OR (w AND 255) :: 32 word) :: 8 word) = ucast w"
  using ucast_update [of b w] by simp

lemma ucast_ucast_byte: "(ucast (ucast (b :: 8 word) :: 32 word) :: 8 word) = b"
  by (rule bit_word_eqI) (auto simp add: bit_simps)

lemma update_unchanged:
  fixes b :: "8 word" and w :: "32 word"
  assumes "(ucast b AND - 256) OR (w AND 255) = (ucast b :: 32 word)"
  shows "b = ucast w"
proof -
  have "(ucast ((ucast b AND - 256) OR (w AND 255) :: 32 word) :: 8 word) = ucast (ucast b :: 32 word)"
    by (simp only: assms)
  then show ?thesis
    by (simp only: ucast_update_nf ucast_ucast_byte)
qed

lemma update_same:
  fixes w :: "32 word"
  shows "(ucast (ucast w :: 8 word) AND NOT 0xff) OR (w AND 0xff) = (ucast (ucast w :: 8 word) :: 32 word)"
  unfolding ff_mask by (rule bit_word_eqI) (auto simp add: bit_simps)

lemma update_same_nf:
  fixes w :: "32 word"
  shows "(ucast (ucast w :: 8 word) AND - 256) OR (w AND 255) = (ucast (ucast w :: 8 word) :: 32 word)"
  using update_same [of w] by simp

lemma ucast_of_int: "(ucast (word_of_int k :: 32 word) :: 8 word) = word_of_int k"
  by (rule bit_word_eqI) (auto simp add: bit_simps)

lemma uint_byte:
  assumes "0 \<le> v" "v \<le> 255"
  shows "uint (word_of_int (255 - v) :: 8 word) = 255 - v"
proof -
  from assms have "take_bit 8 (255 - v) = 255 - v"
    by (simp add: take_bit_int_eq_self)
  then show ?thesis
    by (simp only: uint_word_of_int_eq) simp
qed

lemma uint_byte_iff:
  assumes "0 \<le> v" "v \<le> 255"
  shows "uint (x :: 8 word) = 255 - v \<longleftrightarrow> x = word_of_int (255 - v)"
proof
  assume "uint x = 255 - v"
  then have "uint x = uint (word_of_int (255 - v) :: 8 word)"
    by (simp only: uint_byte [OF assms])
  then show "x = word_of_int (255 - v)"
    by (simp only: word_uint_eq_iff [symmetric])
next
  assume "x = word_of_int (255 - v)"
  then show "uint x = 255 - v"
    by (simp only: uint_byte [OF assms])
qed

section \<open>The register policy of the configuration\<close>

lemmas table_defs =
  regmap_readable_def regmap_writeable_def regmap_volatile_def regmap_precious_def
  regmap_check_range_table_def regmap_reg_in_ranges_def regmap_reg_range_def
  apds9960_regmap_config_def apds9960_readable_table_def apds9960_readable_ranges_def
  apds9960_volatile_table_def apds9960_volatile_ranges_def
  apds9960_precious_table_def apds9960_precious_ranges_def
  APDS9960_REG_ALS_BASE_def APDS9960_REG_ATIME_def APDS9960_REG_ALS_CHANNEL_def

lemma atime_policy:
  "regmap_readable apds9960_regmap_config APDS9960_REG_ATIME"
  "regmap_writeable apds9960_regmap_config APDS9960_REG_ATIME"
  "\<not> regmap_volatile apds9960_regmap_config APDS9960_REG_ATIME"
  by (simp_all add: table_defs)

lemma clear_policy:
  "regmap_readable apds9960_regmap_config (APDS9960_REG_ALS_CHANNEL IDX_ALS_CLEAR)"
  "regmap_writeable apds9960_regmap_config (APDS9960_REG_ALS_CHANNEL IDX_ALS_CLEAR)"
  "regmap_volatile apds9960_regmap_config (APDS9960_REG_ALS_CHANNEL IDX_ALS_CLEAR)"
  "\<not> regmap_precious apds9960_regmap_config (APDS9960_REG_ALS_CHANNEL IDX_ALS_CLEAR)"
  by (simp_all add: table_defs)

lemma cache_type_cfg: "cache_type apds9960_regmap_config = REGCACHE_RBTREE"
  by (simp add: apds9960_regmap_config_def)


lemma volatile_range:
  "regmap_volatile apds9960_regmap_config reg \<longleftrightarrow> 0x94 \<le> reg \<and> reg \<le> 0x96"
  by (auto simp add: table_defs)

lemma readable_range:
  "regmap_readable apds9960_regmap_config reg \<longleftrightarrow> 0x81 \<le> reg \<and> reg \<le> 0x9a"
  by (auto simp add: table_defs)


section \<open>Register accesses of the driver, worked out\<close>

text \<open>
  ATIME is readable, writeable and not volatile, so it goes through the cache; the
  clear-channel register is volatile, so every access to it is a bus transaction.
\<close>

lemma regmap_read_atime:
  "regmap_read apds9960_regmap_config m APDS9960_REG_ATIME =
     (case cache m APDS9960_REG_ATIME of
        Some v \<Rightarrow> (0, ucast v, m)
      | None \<Rightarrow>
          if bus_ret m (length (bus_log m)) = 0
          then (0, ucast (hw m APDS9960_REG_ATIME),
                m\<lparr>cache := (cache m)(APDS9960_REG_ATIME \<mapsto> hw m APDS9960_REG_ATIME),
                  bus_log := bus_log m @ [BusRead APDS9960_REG_ATIME]\<rparr>)
          else (bus_ret m (length (bus_log m)), 0,
                m\<lparr>bus_log := bus_log m @ [BusRead APDS9960_REG_ATIME]\<rparr>))"
  by (simp add: regmap_read_def regcache_read_def regcache_write_def bus_read_def
      atime_policy cache_type_cfg split: option.split)

lemma regmap_write_atime:
  "regmap_write apds9960_regmap_config m APDS9960_REG_ATIME w =
     (bus_ret m (length (bus_log m)),
      m\<lparr>hw := (if bus_ret m (length (bus_log m)) = 0
                then (hw m)(APDS9960_REG_ATIME := ucast w) else hw m),
        cache := (cache m)(APDS9960_REG_ATIME \<mapsto> ucast w),
        bus_log := bus_log m @ [BusWrite APDS9960_REG_ATIME (ucast w)]\<rparr>)"
  by (simp add: regmap_write_def regcache_write_def bus_write_def Let_def
      atime_policy cache_type_cfg)

lemma regmap_read_clear:
  "regmap_read apds9960_regmap_config m (APDS9960_REG_ALS_CHANNEL IDX_ALS_CLEAR) =
     (if bus_ret m (length (bus_log m)) = 0
      then (0, ucast (hw m (APDS9960_REG_ALS_CHANNEL IDX_ALS_CLEAR)),
            m\<lparr>bus_log := bus_log m @ [BusRead (APDS9960_REG_ALS_CHANNEL IDX_ALS_CLEAR)]\<rparr>)
      else (bus_ret m (length (bus_log m)), 0,
            m\<lparr>bus_log := bus_log m @ [BusRead (APDS9960_REG_ALS_CHANNEL IDX_ALS_CLEAR)]\<rparr>))"
  by (simp add: regmap_read_def regcache_read_def regcache_write_def bus_read_def
      clear_policy cache_type_cfg)

lemma regmap_write_clear:
  "regmap_write apds9960_regmap_config m (APDS9960_REG_ALS_CHANNEL IDX_ALS_CLEAR) w =
     (bus_ret m (length (bus_log m)),
      m\<lparr>hw := (if bus_ret m (length (bus_log m)) = 0
                then (hw m)(APDS9960_REG_ALS_CHANNEL IDX_ALS_CLEAR := ucast w) else hw m),
        bus_log := bus_log m @ [BusWrite (APDS9960_REG_ALS_CHANNEL IDX_ALS_CLEAR) (ucast w)]\<rparr>)"
  by (simp add: regmap_write_def regcache_write_def bus_write_def Let_def
      clear_policy cache_type_cfg)

text \<open>What an update of ATIME under the full mask does.\<close>

lemma update_bits_atime_ok:
  assumes "regmap_update_bits apds9960_regmap_config m APDS9960_REG_ATIME 0xff w = (0, m')"
  shows "cache m' APDS9960_REG_ATIME = Some (ucast w)"
    and "set (drop (length (bus_log m)) (bus_log m'))
           \<subseteq> {BusRead APDS9960_REG_ATIME, BusWrite APDS9960_REG_ATIME (ucast w)}"
    and "(\<forall>b. cache m APDS9960_REG_ATIME = Some b \<longrightarrow> hw m APDS9960_REG_ATIME = b)
           \<Longrightarrow> hw m' APDS9960_REG_ATIME = ucast w"
  using assms
  unfolding regmap_update_bits_def regmap_read_atime regmap_write_atime Let_def
  by (auto split: option.splits if_splits simp: ucast_update_nf dest: update_unchanged)

lemma update_bits_atime_hw_fail:
  assumes "regmap_update_bits apds9960_regmap_config m APDS9960_REG_ATIME 0xff w = (ret, m')"
    and "ret \<noteq> 0"
  shows "hw m' = hw m" and "bus_ret m' = bus_ret m"
  using assms
  unfolding regmap_update_bits_def regmap_read_atime regmap_write_atime Let_def
  by (auto split: option.splits if_splits)


lemma update_bits_atime_exact:
  assumes "regmap_update_bits apds9960_regmap_config m APDS9960_REG_ATIME 0xff w = (0, m')"
  shows "cache m APDS9960_REG_ATIME = Some (ucast w) \<Longrightarrow> m' = m"
    and "hw m' APDS9960_REG_ATIME = ucast w \<longleftrightarrow>
           \<not> (cache m APDS9960_REG_ATIME = Some (ucast w) \<and> hw m APDS9960_REG_ATIME \<noteq> ucast w)"
    and "cache m APDS9960_REG_ATIME = Some b \<Longrightarrow> b \<noteq> ucast w \<Longrightarrow>
           bus_log m' = bus_log m @ [BusWrite APDS9960_REG_ATIME (ucast w)]"
  using assms
  unfolding regmap_update_bits_def regmap_read_atime regmap_write_atime Let_def
  by (auto split: option.splits if_splits simp: ucast_update_nf update_same_nf
      dest: update_unchanged)

lemma update_bits_atime_fail:
  assumes "regmap_update_bits apds9960_regmap_config m APDS9960_REG_ATIME 0xff w = (ret, m')"
    and "ret \<noteq> 0"
  shows "length (bus_log m) < length (bus_log m')"
    and "cache m' = cache m \<or> cache m' = (cache m)(APDS9960_REG_ATIME \<mapsto> ucast w)"
    and "cache m APDS9960_REG_ATIME = Some b \<Longrightarrow>
           cache m' APDS9960_REG_ATIME = Some (ucast w) \<and> b \<noteq> ucast w"
  using assms
  unfolding regmap_update_bits_def regmap_read_atime regmap_write_atime Let_def
  by (auto split: option.splits if_splits simp: ucast_update_nf update_same_nf)

section \<open>The operations, worked out\<close>

text \<open>The second clamp never changes what the first one left.\<close>

lemma stored_us:
  "s32 (clamp (if us0 < 1000 then 1000
               else if us0 > APDS9960_MAX_INT_TIME_IN_US then APDS9960_MAX_INT_TIME_IN_US
               else us0) 1000 APDS9960_MAX_INT_TIME_IN_US)
   = (if us0 < 1000 then 1000 else if us0 > 1000000 then 1000000 else us0)"
  by (simp add: clamp_def APDS9960_MAX_INT_TIME_IN_US_def s32_def)

lemma write_raw_eq:
  "apds9960_write_raw d chan val val2 msk =
     (if msk \<noteq> IIO_CHAN_INFO_INT_TIME then (- EINVAL, d)
      else let us0 = s32 (adc_int_us_ll val (als_gain (priv d)));
               us = (if us0 < 1000 then 1000 else if us0 > 1000000 then 1000000 else us0);
               data1 = (priv d)\<lparr>als_adc_int_us := us\<rparr>
           in if als_gain (priv d) \<notin> {1, 4, 16, 64} then (- EINVAL, d\<lparr>priv := data1\<rparr>)
              else (case regmap_update_bits apds9960_regmap_config (regmap (priv d))
                           APDS9960_REG_ATIME 0xff (word_of_int (255 - val)) of
                      (ret, m') \<Rightarrow> (ret, d\<lparr>priv := data1\<lparr>regmap := m'\<rparr>\<rparr>)))"
  unfolding apds9960_write_raw_def Let_def stored_us by simp


lemma read_event_config_eq:
  "apds9960_als_read_event_config d chan type dir =
     (let m = regmap (priv d); r = bus_ret m (length (bus_log m));
          m' = m\<lparr>bus_log := bus_log m @ [BusRead (APDS9960_REG_ALS_CHANNEL IDX_ALS_CLEAR)]\<rparr>
      in (r, d\<lparr>priv := (priv d)\<lparr>regmap := m',
                 als_int := (if r = 0 then uint (hw m (APDS9960_REG_ALS_CHANNEL IDX_ALS_CLEAR))
                             else als_int (priv d))\<rparr>\<rparr>))"
  by (simp add: apds9960_als_read_event_config_def regmap_read_clear Let_def uint_up_ucast is_up)

lemma write_event_config_eq:
  "apds9960_als_write_event_config d chan type dir state =
     (let m = regmap (priv d); r = bus_ret m (length (bus_log m))
      in (r, d\<lparr>priv := (priv d)\<lparr>regmap :=
            m\<lparr>hw := (if r = 0 then (hw m)(APDS9960_REG_ALS_CHANNEL IDX_ALS_CLEAR := word_of_int state)
                      else hw m),
              bus_log := bus_log m @ [BusWrite (APDS9960_REG_ALS_CHANNEL IDX_ALS_CLEAR)
                                        (word_of_int state)]\<rparr>\<rparr>\<rparr>))"
  by (simp add: apds9960_als_write_event_config_def regmap_write_clear Let_def ucast_of_int
      del: of_int_diff)

lemma iio_dev_priv_upd_eq: "d\<lparr>priv := p\<rparr> = d \<longleftrightarrow> p = priv d"
  by (cases d) auto

lemma data_us_upd_eq: "p\<lparr>als_adc_int_us := u\<rparr> = p \<longleftrightarrow> u = als_adc_int_us p"
  by (cases p) auto

text \<open>
  For a control value in 0..255 and a supported gain nothing wraps: the stored
  value before clamping is \<open>1000 * (256 - val) * gain\<close>.
\<close>

lemma adc_int_us_exact:
  assumes "0 \<le> val" and "val \<le> 255" and "gain \<in> {1, 4, 16, 64}"
  shows "s32 (adc_int_us_ll val gain) = 1000 * (256 - val) * gain"
proof -
  have a: "s32 (256 - val) = 256 - val"
    using assms(1,2) by (simp add: s32_def)
  have b: "s64 (1000000 * (256 - val)) = 1000000 * (256 - val)"
    using assms(1,2) by (simp add: s64_def)
  have c: "s64 (1000000 * (256 - val) * gain) = 1000000 * (256 - val) * gain"
    using assms by (auto simp add: s64_def)
  have d: "(1000000 * (256 - val) * gain) sdiv 1000 = 1000 * (256 - val) * gain"
    using assms by (auto simp add: signed_divide_int_def sgn_if)
  have e: "s64 (1000 * (256 - val) * gain) = 1000 * (256 - val) * gain"
    using assms by (auto simp add: s64_def)
  have f: "s32 (1000 * (256 - val) * gain) = 1000 * (256 - val) * gain"
    using assms by (auto simp add: s32_def)
  show ?thesis
    by (simp only: adc_int_us_ll_def a b c d e f)
qed

section \<open>Runs on concrete devices\<close>

lemma channels_nth:
  "apds9960_channels ! 0 = apds9960_channel IIO_MOD_LIGHT_CLEAR IDX_ALS_CLEAR"
  "apds9960_channels ! Suc 0 = apds9960_channel IIO_MOD_LIGHT_RED IDX_ALS_RED"
  "apds9960_channels ! 2 = apds9960_channel IIO_MOD_LIGHT_GREEN IDX_ALS_GREEN"
  "apds9960_channels ! 3 = apds9960_channel IIO_MOD_LIGHT_BLUE IDX_ALS_BLUE"
  by (simp_all add: apds9960_channels_def)

lemma dev_simps:
  "als_gain (priv (apds9960_dev gain us rets)) = gain"
  "als_int (priv (apds9960_dev gain us rets)) = 0"
  "als_adc_int_us (priv (apds9960_dev gain us rets)) = us"
  "events (apds9960_dev gain us rets) = []"
  "hw (regmap (priv (apds9960_dev gain us rets))) = chip_reset"
  "cache (regmap (priv (apds9960_dev gain us rets))) APDS9960_REG_ATIME = Some 0xff"
  "bus_ret (regmap (priv (apds9960_dev gain us rets))) = rets"
  "bus_log (regmap (priv (apds9960_dev gain us rets))) = []"
  by (simp_all add: apds9960_dev_def regmap_init_def apds9960_regmap_config_def
      apds9960_reg_defaults_def)

lemma adc_5_4: "s32 (adc_int_us_ll 5 4) = 1004000"
  by (simp add: adc_int_us_ll_def s64_def s32_def signed_divide_int_def)

lemma adc_0_5: "s32 (adc_int_us_ll 0 5) = 1280000"
  by (simp add: adc_int_us_ll_def s64_def s32_def signed_divide_int_def)

lemma run_5_4:
  "fst (apds9960_write_raw (apds9960_dev 4 1000 bus_good) (apds9960_channels ! 0) 5 0
          IIO_CHAN_INFO_INT_TIME) = 0"
  by (simp add: write_raw_eq Let_def dev_simps adc_5_4 regmap_update_bits_def
      regmap_read_atime regmap_write_atime bus_good_def split: prod.splits)

text \<open>A first call that fails on the bus.\<close>

lemma first_call:
  "fst (apds9960_write_raw (apds9960_dev 4 1000 bus_first_fails) (apds9960_channels ! 0) 5 0
          IIO_CHAN_INFO_INT_TIME) = - EIO"
  "regmap (priv (snd (apds9960_write_raw (apds9960_dev 4 1000 bus_first_fails)
          (apds9960_channels ! 0) 5 0 IIO_CHAN_INFO_INT_TIME)))
     = (regmap (priv (apds9960_dev 4 1000 bus_first_fails)))
         \<lparr>cache := (cache (regmap (priv (apds9960_dev 4 1000 bus_first_fails))))
                      (APDS9960_REG_ATIME \<mapsto> 250),
          bus_log := [BusWrite APDS9960_REG_ATIME 250]\<rparr>"
  "als_gain (priv (snd (apds9960_write_raw (apds9960_dev 4 1000 bus_first_fails)
          (apds9960_channels ! 0) 5 0 IIO_CHAN_INFO_INT_TIME))) = 4"
  by (simp_all add: write_raw_eq Let_def dev_simps adc_5_4 regmap_update_bits_def
      regmap_read_atime regmap_write_atime bus_first_fails_def EIO_def split: prod.splits)

section \<open>The integration-time write path\<close>

text \<open>
  C1, as the code has it. For every requested value in 0..255 and every gain in
  {1, 4, 16, 64}, after a successful \<open>apds9960_write_raw\<close> the register map holds
  the byte \<open>255 - val\<close> as the value of ATIME, whatever the clamp did to the
  microsecond value. The chip holds that byte afterwards in every case but one: when
  the register map already held \<open>255 - val\<close> for ATIME while the chip held another
  byte. Then the call succeeds and transfers nothing. When the register map held
  another byte for ATIME, the call is exactly one bus write of \<open>255 - val\<close> to
  ATIME. No other register is ever addressed.
\<close>

theorem write_raw_commits_atime:
  assumes "0 \<le> val" and "val \<le> 255"
    and "als_gain (priv d) \<in> {1, 4, 16, 64}"
    and "apds9960_write_raw d chan val val2 msk = (0, d')"
  shows "map_option uint (cache (regmap (priv d')) APDS9960_REG_ATIME) = Some (255 - val)
       \<and> (uint (hw (regmap (priv d')) APDS9960_REG_ATIME) = 255 - val \<longleftrightarrow>
            \<not> (cache (regmap (priv d)) APDS9960_REG_ATIME = Some (word_of_int (255 - val))
               \<and> hw (regmap (priv d)) APDS9960_REG_ATIME \<noteq> word_of_int (255 - val)))
       \<and> (cache (regmap (priv d)) APDS9960_REG_ATIME = Some (word_of_int (255 - val))
            \<longrightarrow> regmap (priv d') = regmap (priv d))
       \<and> (\<forall>b. cache (regmap (priv d)) APDS9960_REG_ATIME = Some b \<and> b \<noteq> word_of_int (255 - val)
            \<longrightarrow> bus_log (regmap (priv d'))
                  = bus_log (regmap (priv d)) @ [BusWrite APDS9960_REG_ATIME (word_of_int (255 - val))])
       \<and> set (drop (length (bus_log (regmap (priv d)))) (bus_log (regmap (priv d'))))
           \<subseteq> {BusRead APDS9960_REG_ATIME,
               BusWrite APDS9960_REG_ATIME (word_of_int (255 - val))}"
proof -
  from assms(4) have msk: "msk = IIO_CHAN_INFO_INT_TIME"
    by (auto simp: write_raw_eq EINVAL_def split: if_splits)
  obtain ret m' where ub: "regmap_update_bits apds9960_regmap_config (regmap (priv d))
      APDS9960_REG_ATIME 0xff (word_of_int (255 - val)) = (ret, m')"
    by (cases "regmap_update_bits apds9960_regmap_config (regmap (priv d))
      APDS9960_REG_ATIME 0xff (word_of_int (255 - val))")
  from assms(3,4) ub msk have ret: "ret = 0" and m': "regmap (priv d') = m'"
    by (auto simp: write_raw_eq Let_def)
  note ok = update_bits_atime_ok [OF ub [unfolded ret], unfolded ucast_of_int]
  note ex = update_bits_atime_exact [OF ub [unfolded ret], unfolded ucast_of_int]
  have byte: "uint (word_of_int (255 - val) :: 8 word) = 255 - val"
    by (rule uint_byte [OF assms(1,2)])
  show ?thesis
    unfolding m'
  proof (intro conjI impI allI)
    show "map_option uint (cache m' APDS9960_REG_ATIME) = Some (255 - val)"
      by (simp only: ok(1) option.map byte)
    show "uint (hw m' APDS9960_REG_ATIME) = 255 - val \<longleftrightarrow>
            \<not> (cache (regmap (priv d)) APDS9960_REG_ATIME = Some (word_of_int (255 - val))
               \<and> hw (regmap (priv d)) APDS9960_REG_ATIME \<noteq> word_of_int (255 - val))"
      by (simp only: uint_byte_iff [OF assms(1,2)] ex(2))
    show "set (drop (length (bus_log (regmap (priv d)))) (bus_log m'))
           \<subseteq> {BusRead APDS9960_REG_ATIME,
               BusWrite APDS9960_REG_ATIME (word_of_int (255 - val))}"
      by (rule ok(2))
  next
    assume "cache (regmap (priv d)) APDS9960_REG_ATIME = Some (word_of_int (255 - val))"
    then show "m' = regmap (priv d)"
      by (rule ex(1))
  next
    fix b
    assume "cache (regmap (priv d)) APDS9960_REG_ATIME = Some b \<and> b \<noteq> word_of_int (255 - val)"
    then show "bus_log m' = bus_log (regmap (priv d))
                 @ [BusWrite APDS9960_REG_ATIME (word_of_int (255 - val))]"
      using ex(3) by blast
  qed
qed

text \<open>A run of C1: gain 4, control value 5, on a healthy bus; the byte is 250.\<close>

theorem write_raw_commits_atime_witness:
  "(0::int) \<le> 5 \<and> (5::int) \<le> 255
   \<and> als_gain (priv (apds9960_dev 4 1000 bus_good)) \<in> {1, 4, 16, 64}
   \<and> fst (apds9960_write_raw (apds9960_dev 4 1000 bus_good) (apds9960_channels ! 0) 5 0
            IIO_CHAN_INFO_INT_TIME) = 0
   \<and> map_option uint (cache (regmap (priv (snd (apds9960_write_raw (apds9960_dev 4 1000 bus_good)
         (apds9960_channels ! 0) 5 0 IIO_CHAN_INFO_INT_TIME)))) APDS9960_REG_ATIME) = Some 250
   \<and> uint (hw (regmap (priv (snd (apds9960_write_raw (apds9960_dev 4 1000 bus_good)
         (apds9960_channels ! 0) 5 0 IIO_CHAN_INFO_INT_TIME)))) APDS9960_REG_ATIME) = 250
   \<and> bus_log (regmap (priv (snd (apds9960_write_raw (apds9960_dev 4 1000 bus_good)
         (apds9960_channels ! 0) 5 0 IIO_CHAN_INFO_INT_TIME)))) = [BusWrite APDS9960_REG_ATIME 250]"
proof -
  let ?r = "apds9960_write_raw (apds9960_dev 4 1000 bus_good) (apds9960_channels ! 0) 5 0
              IIO_CHAN_INFO_INT_TIME"
  have gain: "als_gain (priv (apds9960_dev 4 1000 bus_good)) \<in> {1, 4, 16, 64}"
    by (simp add: dev_simps)
  have run: "?r = (0, snd ?r)"
    using run_5_4 by (simp add: prod_eq_iff)
  from write_raw_commits_atime [OF _ _ gain run] run_5_4 gain
  show ?thesis by (simp add: dev_simps)
qed

text \<open>
  A call with gain 4 and control value 5 fails on the bus; the same call repeated
  returns 0 although nothing more is transferred and the chip still holds 255.
\<close>

theorem write_raw_retry_skips_chip:
  "fst (apds9960_write_raw (apds9960_dev 4 1000 bus_first_fails) (apds9960_channels ! 0) 5 0
          IIO_CHAN_INFO_INT_TIME) = - EIO
   \<and> fst (apds9960_write_raw
            (snd (apds9960_write_raw (apds9960_dev 4 1000 bus_first_fails)
                    (apds9960_channels ! 0) 5 0 IIO_CHAN_INFO_INT_TIME))
            (apds9960_channels ! 0) 5 0 IIO_CHAN_INFO_INT_TIME) = 0
   \<and> uint (hw (regmap (priv (snd (apds9960_write_raw
            (snd (apds9960_write_raw (apds9960_dev 4 1000 bus_first_fails)
                    (apds9960_channels ! 0) 5 0 IIO_CHAN_INFO_INT_TIME))
            (apds9960_channels ! 0) 5 0 IIO_CHAN_INFO_INT_TIME)))) APDS9960_REG_ATIME) = 255
   \<and> bus_log (regmap (priv (snd (apds9960_write_raw
            (snd (apds9960_write_raw (apds9960_dev 4 1000 bus_first_fails)
                    (apds9960_channels ! 0) 5 0 IIO_CHAN_INFO_INT_TIME))
            (apds9960_channels ! 0) 5 0 IIO_CHAN_INFO_INT_TIME))))
       = [BusWrite APDS9960_REG_ATIME 250]"
proof -
  let ?d1 = "snd (apds9960_write_raw (apds9960_dev 4 1000 bus_first_fails)
                    (apds9960_channels ! 0) 5 0 IIO_CHAN_INFO_INT_TIME)"
  have second: "fst (apds9960_write_raw ?d1 (apds9960_channels ! 0) 5 0 IIO_CHAN_INFO_INT_TIME) = 0"
    "regmap (priv (snd (apds9960_write_raw ?d1 (apds9960_channels ! 0) 5 0
        IIO_CHAN_INFO_INT_TIME))) = regmap (priv ?d1)"
    by (simp_all add: write_raw_eq [of ?d1] Let_def first_call adc_5_4 regmap_update_bits_def
        regmap_read_atime regmap_write_atime dev_simps split: prod.splits)
  show ?thesis
    by (simp add: second first_call dev_simps chip_reset_def)
qed

text \<open>
  C2, as the code has it. When \<open>apds9960_write_raw\<close> fails, the chip's registers,
  the gain, the cached event value and the event stream are as before. A request for
  another attribute than the integration time leaves the whole device unchanged. A
  request for the integration time that fails has overwritten the stored integration
  time with the clamped value computed from the control value and the gain. If it
  failed on the gain, the register map is untouched. If it failed on the bus, the bus
  log has grown, and the register map's value of ATIME is either unchanged (a failed
  read) or already \<open>255 - val\<close> (a failed write); the latter always when the map
  held a value for ATIME, which was then a different one. The device as a whole is
  unchanged exactly when the request was for another attribute, or the gain was
  unsupported and the stored integration time already was that clamped value.
\<close>

theorem write_raw_failure_state:
  assumes "apds9960_write_raw d chan val val2 msk = (ret, d')" and "ret \<noteq> 0"
  shows "hw (regmap (priv d')) = hw (regmap (priv d))
       \<and> als_gain (priv d') = als_gain (priv d)
       \<and> als_int (priv d') = als_int (priv d)
       \<and> events d' = events d
       \<and> (msk \<noteq> IIO_CHAN_INFO_INT_TIME \<longrightarrow> d' = d)
       \<and> (msk = IIO_CHAN_INFO_INT_TIME \<longrightarrow>
            als_adc_int_us (priv d') =
              (let us0 = s32 (adc_int_us_ll val (als_gain (priv d)))
               in if us0 < 1000 then 1000 else if us0 > 1000000 then 1000000 else us0))
       \<and> (msk = IIO_CHAN_INFO_INT_TIME \<and> als_gain (priv d) \<notin> {1, 4, 16, 64}
            \<longrightarrow> regmap (priv d') = regmap (priv d))
       \<and> (msk = IIO_CHAN_INFO_INT_TIME \<and> als_gain (priv d) \<in> {1, 4, 16, 64}
            \<longrightarrow> length (bus_log (regmap (priv d))) < length (bus_log (regmap (priv d')))
              \<and> (cache (regmap (priv d')) = cache (regmap (priv d))
                 \<or> cache (regmap (priv d'))
                     = (cache (regmap (priv d)))(APDS9960_REG_ATIME \<mapsto> word_of_int (255 - val)))
              \<and> (\<forall>b. cache (regmap (priv d)) APDS9960_REG_ATIME = Some b
                    \<longrightarrow> cache (regmap (priv d')) APDS9960_REG_ATIME
                          = Some (word_of_int (255 - val))
                        \<and> b \<noteq> word_of_int (255 - val)))
       \<and> (d' = d \<longleftrightarrow>
            msk \<noteq> IIO_CHAN_INFO_INT_TIME
            \<or> (als_gain (priv d) \<notin> {1, 4, 16, 64}
               \<and> als_adc_int_us (priv d) =
                   (let us0 = s32 (adc_int_us_ll val (als_gain (priv d)))
                    in if us0 < 1000 then 1000 else if us0 > 1000000 then 1000000 else us0)))"
proof (cases "msk = IIO_CHAN_INFO_INT_TIME")
  case False
  with assms show ?thesis
    by (simp add: write_raw_eq)
next
  case msk: True
  define us where "us = (let us0 = s32 (adc_int_us_ll val (als_gain (priv d)))
               in if us0 < 1000 then 1000 else if us0 > 1000000 then (1000000::int) else us0)"
  show ?thesis
  proof (cases "als_gain (priv d) \<in> {1, 4, 16, 64}")
    case False
    with assms msk have d': "d' = d\<lparr>priv := (priv d)\<lparr>als_adc_int_us := us\<rparr>\<rparr>"
      by (auto simp add: write_raw_eq Let_def us_def)
    have "d' = d \<longleftrightarrow> als_adc_int_us (priv d) = us"
      unfolding d' by (auto simp add: iio_dev_priv_upd_eq data_us_upd_eq)
    with False msk show ?thesis
      unfolding us_def [symmetric] by (simp add: d')
  next
    case gain: True
    obtain r m' where ub: "regmap_update_bits apds9960_regmap_config (regmap (priv d))
        APDS9960_REG_ATIME 0xff (word_of_int (255 - val)) = (r, m')"
      by (cases "regmap_update_bits apds9960_regmap_config (regmap (priv d))
        APDS9960_REG_ATIME 0xff (word_of_int (255 - val))")
    from assms msk gain ub have r: "r = ret"
      and d': "d' = d\<lparr>priv := (priv d)\<lparr>als_adc_int_us := us, regmap := m'\<rparr>\<rparr>"
      by (auto simp add: write_raw_eq Let_def us_def)
    from r assms(2) have nz: "r \<noteq> 0" by simp
    note hwf = update_bits_atime_hw_fail [OF ub nz]
    note f = update_bits_atime_fail [OF ub nz, unfolded ucast_of_int]
    have ne: "d' \<noteq> d"
    proof
      assume "d' = d"
      then have "bus_log (regmap (priv d')) = bus_log (regmap (priv d))" by simp
      with f(1) show False by (simp add: d')
    qed
    have c3: "\<forall>b. cache (regmap (priv d)) APDS9960_REG_ATIME = Some b
                    \<longrightarrow> cache m' APDS9960_REG_ATIME = Some (word_of_int (255 - val))
                        \<and> b \<noteq> word_of_int (255 - val)"
      using f(3) by blast
    from gain msk ne hwf(1) f(1,2) c3 show ?thesis
      unfolding us_def [symmetric] by (simp add: d' del: of_int_diff)
  qed
qed

text \<open>A run of C2: gain 4, control value 5, on a bus that fails every transfer.\<close>

theorem write_raw_failure_state_witness:
  "fst (apds9960_write_raw (apds9960_dev 4 1000 bus_dead) (apds9960_channels ! 0) 5 0
          IIO_CHAN_INFO_INT_TIME) \<noteq> 0
   \<and> hw (regmap (priv (snd (apds9960_write_raw (apds9960_dev 4 1000 bus_dead)
         (apds9960_channels ! 0) 5 0 IIO_CHAN_INFO_INT_TIME)))) APDS9960_REG_ATIME = 0xff
   \<and> cache (regmap (priv (snd (apds9960_write_raw (apds9960_dev 4 1000 bus_dead)
         (apds9960_channels ! 0) 5 0 IIO_CHAN_INFO_INT_TIME)))) APDS9960_REG_ATIME = Some 250
   \<and> als_gain (priv (snd (apds9960_write_raw (apds9960_dev 4 1000 bus_dead)
         (apds9960_channels ! 0) 5 0 IIO_CHAN_INFO_INT_TIME))) = 4
   \<and> als_adc_int_us (priv (snd (apds9960_write_raw (apds9960_dev 4 1000 bus_dead)
         (apds9960_channels ! 0) 5 0 IIO_CHAN_INFO_INT_TIME))) = 1000000
   \<and> snd (apds9960_write_raw (apds9960_dev 4 1000 bus_dead)
         (apds9960_channels ! 0) 5 0 IIO_CHAN_INFO_INT_TIME) \<noteq> apds9960_dev 4 1000 bus_dead"
proof -
  let ?r = "apds9960_write_raw (apds9960_dev 4 1000 bus_dead) (apds9960_channels ! 0) 5 0
              IIO_CHAN_INFO_INT_TIME"
  have ret: "fst ?r = - EIO"
    by (simp add: write_raw_eq Let_def dev_simps adc_5_4 regmap_update_bits_def
      regmap_read_atime regmap_write_atime bus_dead_def split: prod.splits)
  then have nz: "fst ?r \<noteq> 0"
    by (simp add: EIO_def)
  have run: "?r = (fst ?r, snd ?r)"
    by simp
  from write_raw_failure_state [OF run nz] nz
  show ?thesis by (simp add: dev_simps adc_5_4 chip_reset_def)
qed

text \<open>
  The stored integration time does change on failure: from 1000 to 1000000 with the
  unsupported gain 5 and control value 0, and likewise with gain 4 and control value
  5 on a failing bus, where the register map's value of ATIME also goes from 255 to
  250 while the chip keeps 255.
\<close>

theorem write_raw_failure_overwrites:
  "fst (apds9960_write_raw (apds9960_dev 5 1000 bus_good) (apds9960_channels ! 0) 0 0
          IIO_CHAN_INFO_INT_TIME) = - EINVAL
   \<and> als_adc_int_us (priv (apds9960_dev 5 1000 bus_good)) = 1000
   \<and> als_adc_int_us (priv (snd (apds9960_write_raw (apds9960_dev 5 1000 bus_good)
         (apds9960_channels ! 0) 0 0 IIO_CHAN_INFO_INT_TIME))) = 1000000
   \<and> fst (apds9960_write_raw (apds9960_dev 4 1000 bus_dead) (apds9960_channels ! 0) 5 0
          IIO_CHAN_INFO_INT_TIME) = - EIO
   \<and> als_adc_int_us (priv (snd (apds9960_write_raw (apds9960_dev 4 1000 bus_dead)
         (apds9960_channels ! 0) 5 0 IIO_CHAN_INFO_INT_TIME))) = 1000000
   \<and> cache (regmap (priv (apds9960_dev 4 1000 bus_dead))) APDS9960_REG_ATIME = Some 255
   \<and> cache (regmap (priv (snd (apds9960_write_raw (apds9960_dev 4 1000 bus_dead)
         (apds9960_channels ! 0) 5 0 IIO_CHAN_INFO_INT_TIME)))) APDS9960_REG_ATIME = Some 250
   \<and> hw (regmap (priv (snd (apds9960_write_raw (apds9960_dev 4 1000 bus_dead)
         (apds9960_channels ! 0) 5 0 IIO_CHAN_INFO_INT_TIME)))) APDS9960_REG_ATIME = 255"
  by (simp add: write_raw_eq Let_def dev_simps adc_0_5 adc_5_4 regmap_update_bits_def
      regmap_read_atime regmap_write_atime bus_dead_def EIO_def chip_reset_def
      split: prod.splits)

text \<open>
  C3. For every requested value in 0..255 and every gain in {1, 4, 16, 64}, after a
  successful \<open>apds9960_write_raw\<close> the stored integration time lies in
  1000..1000000.
\<close>

theorem write_raw_int_time_range:
  assumes "0 \<le> val" and "val \<le> 255"
    and "als_gain (priv d) \<in> {1, 4, 16, 64}"
    and "apds9960_write_raw d chan val val2 IIO_CHAN_INFO_INT_TIME = (0, d')"
  shows "1000 \<le> als_adc_int_us (priv d') \<and> als_adc_int_us (priv d') \<le> 1000000"
  using assms(3,4)
  by (auto simp: write_raw_eq Let_def split: prod.splits if_splits)

text \<open>A run of C3: gain 4, control value 5.\<close>

theorem write_raw_int_time_range_witness:
  "(0::int) \<le> 5 \<and> (5::int) \<le> 255
   \<and> als_gain (priv (apds9960_dev 4 1000 bus_good)) \<in> {1, 4, 16, 64}
   \<and> fst (apds9960_write_raw (apds9960_dev 4 1000 bus_good) (apds9960_channels ! 0) 5 0
            IIO_CHAN_INFO_INT_TIME) = 0
   \<and> 1000 \<le> als_adc_int_us (priv (snd (apds9960_write_raw (apds9960_dev 4 1000 bus_good)
         (apds9960_channels ! 0) 5 0 IIO_CHAN_INFO_INT_TIME)))
   \<and> als_adc_int_us (priv (snd (apds9960_write_raw (apds9960_dev 4 1000 bus_good)
         (apds9960_channels ! 0) 5 0 IIO_CHAN_INFO_INT_TIME))) \<le> 1000000"
proof -
  let ?r = "apds9960_write_raw (apds9960_dev 4 1000 bus_good) (apds9960_channels ! 0) 5 0
              IIO_CHAN_INFO_INT_TIME"
  have gain: "als_gain (priv (apds9960_dev 4 1000 bus_good)) \<in> {1, 4, 16, 64}"
    by (simp add: dev_simps)
  have run: "?r = (0, snd ?r)"
    using run_5_4 by (simp add: prod_eq_iff)
  from write_raw_int_time_range [OF _ _ gain run] run_5_4 gain
  show ?thesis by simp
qed

text \<open>
  C4. For every gain outside {1, 4, 16, 64}, \<open>apds9960_write_raw\<close> returns
  \<open>-EINVAL\<close> and the register map, with its log of bus transactions, is untouched.
\<close>

theorem write_raw_invalid_gain:
  assumes "als_gain (priv d) \<notin> {1, 4, 16, 64}"
  shows "fst (apds9960_write_raw d chan val val2 msk) = - EINVAL
       \<and> regmap (priv (snd (apds9960_write_raw d chan val val2 msk))) = regmap (priv d)"
  using assms by (simp add: write_raw_eq Let_def)

text \<open>A run of C4: gain 5.\<close>

theorem write_raw_invalid_gain_witness:
  "als_gain (priv (apds9960_dev 5 1000 bus_good)) \<notin> {1, 4, 16, 64}
   \<and> fst (apds9960_write_raw (apds9960_dev 5 1000 bus_good) (apds9960_channels ! 0) 0 0
            IIO_CHAN_INFO_INT_TIME) = - EINVAL
   \<and> bus_log (regmap (priv (snd (apds9960_write_raw (apds9960_dev 5 1000 bus_good)
         (apds9960_channels ! 0) 0 0 IIO_CHAN_INFO_INT_TIME)))) = []"
proof -
  have gain: "als_gain (priv (apds9960_dev 5 1000 bus_good)) \<notin> {1, 4, 16, 64}"
    by (simp add: dev_simps)
  from write_raw_invalid_gain [OF gain, of "apds9960_channels ! 0" 0 0 IIO_CHAN_INFO_INT_TIME] gain
  show ?thesis by (simp add: dev_simps)
qed

text \<open>
  C10, as the code has it. For control value 0 and gain 64 the 64-bit product is
  16384000000; it is divided by 1000 before it is stored, the quotient 16384000 fits
  a 32-bit \<open>int\<close> and is stored as it is, and the stored integration time ends up
  at the upper bound 1000000.
\<close>

theorem write_raw_no_overflow:
  assumes "als_gain (priv d) = 64"
  shows "s64 (s64 (1000000 * s32 (256 - 0)) * 64) = 16384000000
       \<and> adc_int_us_ll 0 64 = 16384000
       \<and> s32 (adc_int_us_ll 0 64) = 16384000
       \<and> als_adc_int_us (priv (snd (apds9960_write_raw d chan 0 val2 IIO_CHAN_INFO_INT_TIME)))
           = 1000000"
proof -
  have p: "s64 (s64 (1000000 * s32 (256 - 0)) * 64) = 16384000000"
    by (simp add: s64_def s32_def)
  have ll: "adc_int_us_ll 0 64 = 16384000"
    by (simp add: adc_int_us_ll_def s64_def s32_def signed_divide_int_def)
  have tr: "s32 16384000 = 16384000"
    by (simp add: s32_def)
  have w: "als_adc_int_us (priv (snd (apds9960_write_raw d chan 0 val2 IIO_CHAN_INFO_INT_TIME)))
           = 1000000"
    using assms by (simp add: ll tr write_raw_eq Let_def split: prod.splits)
  show ?thesis
    by (simp only: p ll tr w)
qed

text \<open>A run of C10 on a device with gain 64.\<close>

theorem write_raw_no_overflow_witness:
  "als_gain (priv (apds9960_dev 64 1000 bus_good)) = 64
   \<and> s32 (adc_int_us_ll 0 64) = 16384000
   \<and> als_adc_int_us (priv (snd (apds9960_write_raw (apds9960_dev 64 1000 bus_good)
         (apds9960_channels ! 0) 0 0 IIO_CHAN_INFO_INT_TIME))) = 1000000"
proof -
  have gain: "als_gain (priv (apds9960_dev 64 1000 bus_good)) = 64"
    by (simp add: dev_simps)
  from write_raw_no_overflow [OF gain, of "apds9960_channels ! 0" 0] gain
  show ?thesis by (simp add: s32_def)
qed

text \<open>
  With control value 0 and gain 64 the stored value is not negative and the result
  is not the lower bound 1000.
\<close>

theorem write_raw_0_64_upper:
  "als_gain (priv (apds9960_dev 64 1000 bus_good)) = 64
   \<and> fst (apds9960_write_raw (apds9960_dev 64 1000 bus_good) (apds9960_channels ! 0) 0 0
            IIO_CHAN_INFO_INT_TIME) = 0
   \<and> als_adc_int_us (priv (snd (apds9960_write_raw (apds9960_dev 64 1000 bus_good)
         (apds9960_channels ! 0) 0 0 IIO_CHAN_INFO_INT_TIME))) \<noteq> 1000
   \<and> \<not> s32 (adc_int_us_ll 0 64) < 0"
proof -
  have ll: "s32 (adc_int_us_ll 0 64) = 16384000"
    by (simp add: adc_int_us_ll_def s64_def s32_def signed_divide_int_def)
  show ?thesis
    by (simp add: write_raw_eq Let_def dev_simps ll regmap_update_bits_def
      regmap_read_atime regmap_write_atime bus_good_def split: prod.splits)
qed

section \<open>Scale queries and raw reads\<close>

text \<open>
  C5, as the code has it. For each of the four colours a scale query returns
  \<open>IIO_VAL_FRACTIONAL_LOG2\<close> with the pair (0, 10000) when the channel-info lookup
  it delegates to returns 0, and returns what the lookup returned when that is an
  error. For any other channel it returns \<open>-EINVAL\<close> with the output cells and the
  device untouched, without calling the lookup.
\<close>

theorem read_raw_scale:
  "(channel2 chan \<in> {IIO_MOD_LIGHT_CLEAR, IIO_MOD_LIGHT_RED, IIO_MOD_LIGHT_GREEN, IIO_MOD_LIGHT_BLUE}
      \<longrightarrow> (fst (ext d chan (channel2 chan) val val2) = 0 \<longrightarrow>
             fst (apds9960_read_raw ext d chan val val2 IIO_CHAN_INFO_SCALE) = IIO_VAL_FRACTIONAL_LOG2
           \<and> fst (snd (apds9960_read_raw ext d chan val val2 IIO_CHAN_INFO_SCALE)) = 0
           \<and> fst (snd (snd (apds9960_read_raw ext d chan val val2 IIO_CHAN_INFO_SCALE))) = 10000)
        \<and> (fst (ext d chan (channel2 chan) val val2) \<noteq> 0 \<longrightarrow>
             apds9960_read_raw ext d chan val val2 IIO_CHAN_INFO_SCALE
               = ext d chan (channel2 chan) val val2))
   \<and> (channel2 chan \<notin> {IIO_MOD_LIGHT_CLEAR, IIO_MOD_LIGHT_RED, IIO_MOD_LIGHT_GREEN, IIO_MOD_LIGHT_BLUE}
      \<longrightarrow> apds9960_read_raw ext d chan val val2 IIO_CHAN_INFO_SCALE = (- EINVAL, val, val2, d))"
  by (auto simp: apds9960_read_raw_def split: prod.splits)

text \<open>A run of C5: the red channel, with a lookup that succeeds.\<close>

theorem read_raw_scale_witness:
  "channel2 (apds9960_channels ! 1) \<in> {IIO_MOD_LIGHT_CLEAR, IIO_MOD_LIGHT_RED, IIO_MOD_LIGHT_GREEN, IIO_MOD_LIGHT_BLUE}
   \<and> fst (ext_info_ret 0 (apds9960_dev 1 1000 bus_good) (apds9960_channels ! 1)
             (channel2 (apds9960_channels ! 1)) 7 9) = 0
   \<and> fst (apds9960_read_raw (ext_info_ret 0) (apds9960_dev 1 1000 bus_good)
             (apds9960_channels ! 1) 7 9 IIO_CHAN_INFO_SCALE) = IIO_VAL_FRACTIONAL_LOG2
   \<and> fst (snd (apds9960_read_raw (ext_info_ret 0) (apds9960_dev 1 1000 bus_good)
             (apds9960_channels ! 1) 7 9 IIO_CHAN_INFO_SCALE)) = 0
   \<and> fst (snd (snd (apds9960_read_raw (ext_info_ret 0) (apds9960_dev 1 1000 bus_good)
             (apds9960_channels ! 1) 7 9 IIO_CHAN_INFO_SCALE))) = 10000"
  using read_raw_scale [of "apds9960_channels ! 1" "ext_info_ret 0" "apds9960_dev 1 1000 bus_good" 7 9]
  by (simp add: channels_nth apds9960_channel_def ext_info_ret_def)

text \<open>
  With a lookup that fails, the scale query of the red channel returns the lookup's
  error and not the pair (0, 10000).
\<close>

theorem read_raw_scale_lookup_fails:
  "channel2 (apds9960_channels ! 1) = IIO_MOD_LIGHT_RED
   \<and> fst (apds9960_read_raw (ext_info_ret (- EIO)) (apds9960_dev 1 1000 bus_good)
             (apds9960_channels ! 1) 7 9 IIO_CHAN_INFO_SCALE) = - EIO
   \<and> fst (snd (apds9960_read_raw (ext_info_ret (- EIO)) (apds9960_dev 1 1000 bus_good)
             (apds9960_channels ! 1) 7 9 IIO_CHAN_INFO_SCALE)) \<noteq> 0
   \<and> fst (snd (snd (apds9960_read_raw (ext_info_ret (- EIO)) (apds9960_dev 1 1000 bus_good)
             (apds9960_channels ! 1) 7 9 IIO_CHAN_INFO_SCALE))) \<noteq> 10000"
  by (simp add: channels_nth apds9960_channel_def ext_info_ret_def apds9960_read_raw_def EIO_def)

text \<open>
  C6. The blue channel declares the raw attribute and the address 0x9a, yet a raw
  read returns \<open>-EINVAL\<close> with the device untouched: \<open>apds9960_read_raw\<close> has no
  branch for it. Register 0x9a is not volatile and register 0x9b, the high byte of
  the blue channel, is not readable.
\<close>

theorem read_raw_rejects_raw:
  "IIO_CHAN_INFO_RAW \<in> set (info_mask_separate (apds9960_channels ! 3))
   \<and> address (apds9960_channels ! 3) = 0x9a
   \<and> apds9960_read_raw (ext_info_ret 0) (apds9960_dev 4 1000 bus_good) (apds9960_channels ! 3)
        0 0 IIO_CHAN_INFO_RAW = (- EINVAL, 0, 0, apds9960_dev 4 1000 bus_good)
   \<and> \<not> regmap_volatile apds9960_regmap_config 0x9a
   \<and> \<not> regmap_readable apds9960_regmap_config 0x9b"
  by (simp add: channels_nth apds9960_channel_def apds9960_read_raw_def
      APDS9960_REG_ALS_CHANNEL_def APDS9960_REG_ALS_BASE_def volatile_range readable_range)

section \<open>Events\<close>

text \<open>
  C7. After \<open>apds9960_als_write_event_config\<close> has written 1 on a healthy bus,
  \<open>apds9960_als_read_event_config\<close> reads the register back, stores the 1 in
  \<open>als_int\<close>, and returns the status 0 of the read.
\<close>

theorem event_config_round_trip_returns_zero:
  "fst (apds9960_als_write_event_config (apds9960_dev 4 1000 bus_good) (apds9960_channels ! 0)
          IIO_EV_TYPE_THRESH IIO_EV_DIR_RISING 1) = 0
   \<and> hw (regmap (priv (snd (apds9960_als_write_event_config (apds9960_dev 4 1000 bus_good)
          (apds9960_channels ! 0) IIO_EV_TYPE_THRESH IIO_EV_DIR_RISING 1))))
        (APDS9960_REG_ALS_CHANNEL IDX_ALS_CLEAR) = 1
   \<and> fst (apds9960_als_read_event_config
          (snd (apds9960_als_write_event_config (apds9960_dev 4 1000 bus_good)
                  (apds9960_channels ! 0) IIO_EV_TYPE_THRESH IIO_EV_DIR_RISING 1))
          (apds9960_channels ! 0) IIO_EV_TYPE_THRESH IIO_EV_DIR_RISING) = 0
   \<and> als_int (priv (snd (apds9960_als_read_event_config
          (snd (apds9960_als_write_event_config (apds9960_dev 4 1000 bus_good)
                  (apds9960_channels ! 0) IIO_EV_TYPE_THRESH IIO_EV_DIR_RISING 1))
          (apds9960_channels ! 0) IIO_EV_TYPE_THRESH IIO_EV_DIR_RISING))) = 1"
  by (simp add: read_event_config_eq write_event_config_eq Let_def dev_simps bus_good_def)




text \<open>
  C9, as the code has it. The interrupt handler returns \<open>IRQ_HANDLED\<close> and pushes
  exactly one event, whose code is the stored \<open>als_int\<close> and whose timestamp is the
  reading of the IIO clock at that call; it leaves the private data, and with it the
  register map and the log of bus transactions, untouched. The handler does not
  order timestamps: after two interrupts the stream ends with the two clock readings
  in the order of the interrupts, whatever they are.
\<close>

theorem irq_handler_emits:
  "fst (apds9960_als_irq_handler irq d now) = IRQ_HANDLED
   \<and> events (snd (apds9960_als_irq_handler irq d now))
       = events d @ [\<lparr>ev_code = word_of_int (als_int (priv d)), timestamp = now\<rparr>]
   \<and> priv (snd (apds9960_als_irq_handler irq d now)) = priv d
   \<and> bus_log (regmap (priv (snd (apds9960_als_irq_handler irq d now)))) = bus_log (regmap (priv d))
   \<and> map timestamp (events (snd (apds9960_als_irq_handler irq' 
         (snd (apds9960_als_irq_handler irq d now)) now')))
       = map timestamp (events d) @ [now, now']"
  by (simp add: apds9960_als_irq_handler_def iio_push_event_def Let_def)

text \<open>A run of C9: interrupts at clock readings 17 and 23 on a fresh device.\<close>

theorem irq_handler_emits_witness:
  "events (snd (apds9960_als_irq_handler 0 (apds9960_dev 4 1000 bus_good) 17))
       = [\<lparr>ev_code = 0, timestamp = 17\<rparr>]
   \<and> bus_log (regmap (priv (snd (apds9960_als_irq_handler 0 (apds9960_dev 4 1000 bus_good) 17)))) = []
   \<and> map timestamp (events (snd (apds9960_als_irq_handler 0
         (snd (apds9960_als_irq_handler 0 (apds9960_dev 4 1000 bus_good) 17)) 23))) = [17, 23]"
  using irq_handler_emits [of 0 "apds9960_dev 4 1000 bus_good" 17 0 23]
  by (simp add: dev_simps)

text \<open>
  With a clock that reads 20 and then 10, the timestamps of the stream are 20, 10.
\<close>

theorem irq_handler_clock_backwards:
  "map timestamp (events (snd (apds9960_als_irq_handler 0
         (snd (apds9960_als_irq_handler 0 (apds9960_dev 4 1000 bus_good) 20)) 10))) = [20, 10]
   \<and> \<not> sorted (map timestamp (events (snd (apds9960_als_irq_handler 0
         (snd (apds9960_als_irq_handler 0 (apds9960_dev 4 1000 bus_good) 20)) 10))))"
  by (simp add: apds9960_als_irq_handler_def iio_push_event_def Let_def dev_simps)

end
